theory Spec2Isabelle
  imports Complex_Main
begin

section \<open>Data model (package models)\<close>

text \<open>
  A \<open>time.Time\<close> is the number of nanoseconds elapsed since the zero time instant, so
  \<open>IsZero\<close> is equality with 0. The weight and the price of a stored potato are
  \<open>float64\<close> numbers (decoding and the generators give no infinity and no NaN); they are
  kept as the real number they denote. What the program computes from them is a
  \<open>float64\<close>, modelled below with its rounding.
\<close>

type_synonym Time = int

record Potato =
  ID :: string
  Variety :: string
  Origin :: string
  Weight :: real
  Quality :: string
  HarvestDate :: Time
  Price :: real

definition Premium :: string where "Premium = ''Premium''"
definition Standard :: string where "Standard = ''Standard''"
definition Economy :: string where "Economy = ''Economy''"

record Recipe =
  recipe_ID :: string
  Name :: string
  recipe_Variety :: string
  CookingTime :: int
  Difficulty :: string
  Ingredients :: "string list"
  Instructions :: "string list"
  Servings :: int

subsection \<open>Floating-point numbers\<close>



fun exponent_up :: "nat \<Rightarrow> real \<Rightarrow> int \<Rightarrow> int" where
  "exponent_up 0 x e = e"
| "exponent_up (Suc n) x e = (if 2 \<le> x then exponent_up n (x / 2) (e + 1) else e)"

fun exponent_down :: "nat \<Rightarrow> real \<Rightarrow> int \<Rightarrow> int" where
  "exponent_down 0 x e = e"
| "exponent_down (Suc n) x e = (if x < 1 then exponent_down n (2 * x) (e - 1) else e)"








subsection \<open>Summaries\<close>



text \<open>The error values of packages storage and service; a nil error is \<open>None\<close>.\<close>

datatype error =
    ErrNotFound
  | ErrRecipeNotFound
  | ErrInvalidPotato
  | ErrInvalidWeight
  | ErrInvalidPrice
  | ErrInvalidRecipe
  | ErrCookingTime
  | ErrNoRecipesForVariety

section \<open>The store (package storage)\<close>

text \<open>
  \<open>sync.RWMutex\<close>. The state says whether a writer holds the lock, how many readers
  hold it, and whether a writer has called \<open>Lock\<close> and waits for the readers to leave
  (Go's negative reader count). A call either gets the lock or blocks, each with the
  state it leaves:
  \<^item> \<open>Lock\<close> blocks behind another writer, holding or pending; otherwise it announces
    itself and, if readers hold the lock, blocks as the pending writer;
  \<^item> \<open>RLock\<close> blocks while a writer holds the lock or is pending;
  \<^item> the last reader to leave hands the lock to the pending writer.
  Goroutines blocked without being the pending writer are not part of the state.
\<close>

record RWMutex =
  writer :: bool
  pending :: bool
  readers :: nat

datatype 'a attempt = Acquired 'a | Blocked 'a

definition Lock :: "RWMutex \<Rightarrow> RWMutex attempt" where
  "Lock m =
     (if writer m \<or> pending m then Blocked m
      else if 0 < readers m then Blocked (m\<lparr>pending := True\<rparr>)
      else Acquired (m\<lparr>writer := True\<rparr>))"

definition Unlock :: "RWMutex \<Rightarrow> RWMutex" where
  "Unlock m = m\<lparr>writer := False\<rparr>"

definition RLock :: "RWMutex \<Rightarrow> RWMutex attempt" where
  "RLock m =
     (if writer m \<or> pending m then Blocked m
      else Acquired (m\<lparr>readers := Suc (readers m)\<rparr>))"

definition RUnlock :: "RWMutex \<Rightarrow> RWMutex" where
  "RUnlock m =
     (if pending m \<and> readers m = 1 then m\<lparr>readers := 0, pending := False, writer := True\<rparr>
      else m\<lparr>readers := readers m - 1\<rparr>)"

record InMemoryStorage =
  potatoes :: "string \<rightharpoonup> Potato"
  recipes :: "string \<rightharpoonup> Recipe"
  mu :: RWMutex

definition NewInMemoryStorage :: InMemoryStorage where
  "NewInMemoryStorage =
     \<lparr>potatoes = Map.empty, recipes = Map.empty, mu = \<lparr>writer = False, pending = False, readers = 0\<rparr>\<rparr>"

text \<open>
  A Go \<open>range\<close> over a map visits every key once, in an order the runtime chooses anew
  each time. The order is an argument: \<open>range_values ks m\<close> are the values met when the
  keys are visited in the order \<open>ks\<close>, and \<open>iteration_order ks m\<close> says that \<open>ks\<close> is
  such an order for \<open>m\<close>.
\<close>

fun range_values :: "'k list \<Rightarrow> ('k \<rightharpoonup> 'v) \<Rightarrow> 'v list" where
  "range_values [] m = []"
| "range_values (k # ks) m =
     (case m k of None \<Rightarrow> range_values ks m | Some v \<Rightarrow> v # range_values ks m)"

definition iteration_order :: "'k list \<Rightarrow> ('k \<rightharpoonup> 'v) \<Rightarrow> bool" where
  "iteration_order ks m = (distinct ks \<and> set ks = dom m)"

text \<open>
  Each method below is the effect of its critical section, run while the caller holds
  \<open>mu\<close> in the mode the method asks for; the deferred unlock restores \<open>mu\<close>, so a
  completed call leaves it as it was. Acquiring the lock is modelled by \<open>enter\<close> below.
\<close>

definition AddPotato :: "Potato \<Rightarrow> InMemoryStorage \<Rightarrow> error option \<times> InMemoryStorage" where
  "AddPotato potato s = (None, s\<lparr>potatoes := (potatoes s)(ID potato \<mapsto> potato)\<rparr>)"

definition GetPotato :: "string \<Rightarrow> InMemoryStorage \<Rightarrow> error + Potato" where
  "GetPotato ident s =
     (case potatoes s ident of None \<Rightarrow> Inl ErrNotFound | Some potato \<Rightarrow> Inr potato)"

definition GetAllPotatoes :: "string list \<Rightarrow> InMemoryStorage \<Rightarrow> Potato list" where
  "GetAllPotatoes ks s = range_values ks (potatoes s)"

definition UpdatePotato ::
  "string \<Rightarrow> Potato \<Rightarrow> InMemoryStorage \<Rightarrow> error option \<times> InMemoryStorage" where
  "UpdatePotato ident potato s =
     (case potatoes s ident of
        None \<Rightarrow> (Some ErrNotFound, s)
      | Some _ \<Rightarrow> (None, s\<lparr>potatoes := (potatoes s)(ident \<mapsto> potato)\<rparr>))"

definition DeletePotato :: "string \<Rightarrow> InMemoryStorage \<Rightarrow> error option \<times> InMemoryStorage" where
  "DeletePotato ident s =
     (case potatoes s ident of
        None \<Rightarrow> (Some ErrNotFound, s)
      | Some _ \<Rightarrow> (None, s\<lparr>potatoes := (potatoes s)(ident := None)\<rparr>))"

definition GetPotatoesByVariety :: "string list \<Rightarrow> string \<Rightarrow> InMemoryStorage \<Rightarrow> Potato list" where
  "GetPotatoesByVariety ks variety s =
     filter (\<lambda>potato. Variety potato = variety) (range_values ks (potatoes s))"

definition AddRecipe :: "Recipe \<Rightarrow> InMemoryStorage \<Rightarrow> error option \<times> InMemoryStorage" where
  "AddRecipe recipe s = (None, s\<lparr>recipes := (recipes s)(recipe_ID recipe \<mapsto> recipe)\<rparr>)"

definition GetRecipe :: "string \<Rightarrow> InMemoryStorage \<Rightarrow> error + Recipe" where
  "GetRecipe ident s =
     (case recipes s ident of None \<Rightarrow> Inl ErrRecipeNotFound | Some recipe \<Rightarrow> Inr recipe)"

definition GetAllRecipes :: "string list \<Rightarrow> InMemoryStorage \<Rightarrow> Recipe list" where
  "GetAllRecipes ks s = range_values ks (recipes s)"

definition GetRecipesByVariety :: "string list \<Rightarrow> string \<Rightarrow> InMemoryStorage \<Rightarrow> Recipe list" where
  "GetRecipesByVariety ks variety s =
     filter (\<lambda>recipe. recipe_Variety recipe = variety) (range_values ks (recipes s))"

section \<open>Acquiring the store's lock\<close>

text \<open>
  The struct has the single mutex field \<open>mu\<close>. Every method of the store starts with
  \<open>s.mu.Lock()\<close> or \<open>s.mu.RLock()\<close> and defers the matching unlock: \<open>mode_of\<close> is the
  call each method makes, \<open>kind_of\<close> the map its body reads or writes.
\<close>

datatype lock_mode = Exclusive | Shared

datatype entity_kind = InventoryItems | Recipes

datatype store_call =
    CallAddPotato
  | CallGetPotato
  | CallGetAllPotatoes
  | CallUpdatePotato
  | CallDeletePotato
  | CallGetPotatoesByVariety
  | CallAddRecipe
  | CallGetRecipe
  | CallGetAllRecipes
  | CallGetRecipesByVariety

fun mode_of :: "store_call \<Rightarrow> lock_mode" where
  "mode_of CallAddPotato = Exclusive"
| "mode_of CallGetPotato = Shared"
| "mode_of CallGetAllPotatoes = Shared"
| "mode_of CallUpdatePotato = Exclusive"
| "mode_of CallDeletePotato = Exclusive"
| "mode_of CallGetPotatoesByVariety = Shared"
| "mode_of CallAddRecipe = Exclusive"
| "mode_of CallGetRecipe = Shared"
| "mode_of CallGetAllRecipes = Shared"
| "mode_of CallGetRecipesByVariety = Shared"

fun kind_of :: "store_call \<Rightarrow> entity_kind" where
  "kind_of CallAddPotato = InventoryItems"
| "kind_of CallGetPotato = InventoryItems"
| "kind_of CallGetAllPotatoes = InventoryItems"
| "kind_of CallUpdatePotato = InventoryItems"
| "kind_of CallDeletePotato = InventoryItems"
| "kind_of CallGetPotatoesByVariety = InventoryItems"
| "kind_of CallAddRecipe = Recipes"
| "kind_of CallGetRecipe = Recipes"
| "kind_of CallGetAllRecipes = Recipes"
| "kind_of CallGetRecipesByVariety = Recipes"

definition enter :: "store_call \<Rightarrow> InMemoryStorage \<Rightarrow> InMemoryStorage attempt" where
  "enter c s =
     map_attempt (\<lambda>m. s\<lparr>mu := m\<rparr>)
       (case mode_of c of Exclusive \<Rightarrow> Lock (mu s) | Shared \<Rightarrow> RLock (mu s))"

definition leave :: "store_call \<Rightarrow> InMemoryStorage \<Rightarrow> InMemoryStorage" where
  "leave c s =
     s\<lparr>mu := (case mode_of c of Exclusive \<Rightarrow> Unlock (mu s) | Shared \<Rightarrow> RUnlock (mu s))\<rparr>"

text \<open>
  A call is inside the store: it holds \<open>mu\<close> in its mode. A call has to wait: its
  attempt to enter blocks.
\<close>

definition inside :: "store_call \<Rightarrow> InMemoryStorage \<Rightarrow> bool" where
  "inside c s =
     (case mode_of c of
        Exclusive \<Rightarrow> writer (mu s)
      | Shared \<Rightarrow> \<not> writer (mu s) \<and> 0 < readers (mu s))"

fun has_to_wait :: "'a attempt \<Rightarrow> bool" where
  "has_to_wait (Blocked _) = True"
| "has_to_wait (Acquired _) = False"

fun state_after :: "'a attempt \<Rightarrow> 'a" where
  "state_after (Blocked s) = s"
| "state_after (Acquired s) = s"

section \<open>The potato service (package service)\<close>

definition validatePotato :: "Potato \<Rightarrow> error option" where
  "validatePotato potato =
     (if ID potato = [] \<or> Variety potato = [] then Some ErrInvalidPotato
      else if Weight potato \<le> 0 then Some ErrInvalidWeight
      else if Price potato < 0 then Some ErrInvalidPrice
      else None)"

definition IsZero :: "Time \<Rightarrow> bool" where
  "IsZero t = (t = 0)"

text \<open>\<open>now\<close> is the value \<open>time.Now()\<close> returns during the call.\<close>

definition CreatePotato ::
  "Time \<Rightarrow> Potato \<Rightarrow> InMemoryStorage \<Rightarrow> (error + Potato) \<times> InMemoryStorage" where
  "CreatePotato now potato s =
     (case validatePotato potato of
        Some err \<Rightarrow> (Inl err, s)
      | None \<Rightarrow>
          (let potato' = (if IsZero (HarvestDate potato)
                          then potato\<lparr>HarvestDate := now\<rparr> else potato)
           in case AddPotato potato' s of
                (Some err, s') \<Rightarrow> (Inl err, s')
              | (None, s') \<Rightarrow> (Inr potato', s')))"

definition PotatoService_UpdatePotato ::
  "string \<Rightarrow> Potato \<Rightarrow> InMemoryStorage \<Rightarrow> (error + Potato) \<times> InMemoryStorage" where
  "PotatoService_UpdatePotato ident potato s =
     (case validatePotato potato of
        Some err \<Rightarrow> (Inl err, s)
      | None \<Rightarrow>
          (case UpdatePotato ident potato s of
             (Some err, s') \<Rightarrow> (Inl err, s')
           | (None, s') \<Rightarrow> (Inr potato, s')))"









text \<open>
  \<open>time.Since\<close> is a \<open>Duration\<close>: a signed 64-bit count of nanoseconds, saturated
  where the difference does not fit. \<open>Hours\<close> is the duration as a floating-point
  number of hours, taken here as the exact quotient; \<open>go_int\<close> is the conversion
  \<open>int(x)\<close>, which drops the fraction.
\<close>

definition maxDuration :: int where "maxDuration = 2 ^ 63 - 1"
definition minDuration :: int where "minDuration = - (2 ^ 63)"

definition Since :: "Time \<Rightarrow> Time \<Rightarrow> int" where
  "Since now t =
     (let d = now - t
      in if maxDuration < d then maxDuration else if d < minDuration then minDuration else d)"

definition Hours :: "int \<Rightarrow> real" where
  "Hours d = real_of_int d / 3600000000000"

definition go_int :: "real \<Rightarrow> int" where
  "go_int x = (if 0 \<le> x then \<lfloor>x\<rfloor> else \<lceil>x\<rceil>)"

definition daysSinceHarvest :: "Time \<Rightarrow> Potato \<Rightarrow> int" where
  "daysSinceHarvest now potato = go_int (Hours (Since now (HarvestDate potato)) / 24)"

definition CalculateFreshness :: "Time \<Rightarrow> Potato \<Rightarrow> string" where
  "CalculateFreshness now potato =
     (let d = daysSinceHarvest now potato
      in if d \<le> 7 then ''Fresh''
         else if d \<le> 30 then ''Good''
         else if d \<le> 90 then ''Fair''
         else ''Old'')"

section \<open>The recipe service (package service)\<close>

definition validateRecipe :: "Recipe \<Rightarrow> error option" where
  "validateRecipe recipe =
     (if recipe_ID recipe = [] \<or> Name recipe = [] \<or> recipe_Variety recipe = []
      then Some ErrInvalidRecipe
      else if CookingTime recipe \<le> 0 then Some ErrCookingTime
      else None)"

definition CreateRecipe ::
  "Recipe \<Rightarrow> InMemoryStorage \<Rightarrow> (error + Recipe) \<times> InMemoryStorage" where
  "CreateRecipe recipe s =
     (case validateRecipe recipe of
        Some err \<Rightarrow> (Inl err, s)
      | None \<Rightarrow>
          (case AddRecipe recipe s of
             (Some err, s') \<Rightarrow> (Inl err, s')
           | (None, s') \<Rightarrow> (Inr recipe, s')))"

text \<open>The \<open>for\<close> loop of \<open>RecommendRecipe\<close>: the first recipe that passes the test.\<close>

fun firstOfDifficulty :: "string \<Rightarrow> Recipe list \<Rightarrow> Recipe option" where
  "firstOfDifficulty difficulty [] = None"
| "firstOfDifficulty difficulty (recipe # rest) =
     (if difficulty = [] \<or> Difficulty recipe = difficulty then Some recipe
      else firstOfDifficulty difficulty rest)"

definition RecommendRecipe ::
  "string list \<Rightarrow> string \<Rightarrow> string \<Rightarrow> InMemoryStorage \<Rightarrow> error + Recipe" where
  "RecommendRecipe ks variety difficulty s =
     (let rs = GetRecipesByVariety ks variety s
      in case firstOfDifficulty difficulty rs of
           Some recipe \<Rightarrow> Inr recipe
         | None \<Rightarrow> (case rs of r0 # _ \<Rightarrow> Inr r0 | [] \<Rightarrow> Inl ErrNoRecipesForVariety))"

section \<open>The quality degrader (package background)\<close>

text \<open>
  One pass of \<open>degradePotatoQuality\<close>: the loop over the snapshot, with the store and
  \<open>degradedCount\<close> threaded through. The error \<open>UpdatePotato\<close> returns is dropped, as
  the source drops it. The clock is read once per record; a pass takes \<open>now\<close> as the
  same instant for all of them.
\<close>

fun degradeLoop ::
  "Time \<Rightarrow> Potato list \<Rightarrow> InMemoryStorage \<times> nat \<Rightarrow> InMemoryStorage \<times> nat" where
  "degradeLoop now [] acc = acc"
| "degradeLoop now (potato # rest) (s, degradedCount) =
     (let days = daysSinceHarvest now potato
      in if 30 < days \<and> Quality potato = Premium then
           degradeLoop now rest
             (snd (UpdatePotato (ID potato) (potato\<lparr>Quality := Standard\<rparr>) s), degradedCount + 1)
         else if 60 < days \<and> Quality potato = Standard then
           degradeLoop now rest
             (snd (UpdatePotato (ID potato) (potato\<lparr>Quality := Economy\<rparr>) s), degradedCount + 1)
         else degradeLoop now rest (s, degradedCount))"

definition degradePotatoQuality :: "Time \<Rightarrow> string list \<Rightarrow> InMemoryStorage \<Rightarrow> InMemoryStorage" where
  "degradePotatoQuality now ks s = fst (degradeLoop now (GetAllPotatoes ks s) (s, 0))"

section \<open>Notions used to state the properties\<close>

text \<open>Every record is stored under its own identifier.\<close>

definition well_keyed :: "InMemoryStorage \<Rightarrow> bool" where
  "well_keyed s = (\<forall>k potato. potatoes s k = Some potato \<longrightarrow> ID potato = k)"

text \<open>What the specification says a pass does to one record of a given age in days.\<close>

definition degraded :: "int \<Rightarrow> Potato \<Rightarrow> Potato" where
  "degraded days potato =
     (if 30 < days \<and> Quality potato = Premium then potato\<lparr>Quality := Standard\<rparr>
      else if 60 < days \<and> Quality potato = Standard then potato\<lparr>Quality := Economy\<rparr>
      else potato)"

text \<open>The order of the qualities: a larger rank is a better quality.\<close>

definition quality_rank :: "string \<Rightarrow> nat" where
  "quality_rank q = (if q = Premium then 2 else if q = Standard then 1 else 0)"

definition Day :: int where
  "Day = 86400000000000"



section \<open>Sample data\<close>

definition sample_potato :: Potato where
  "sample_potato = \<lparr>ID = ''p1'', Variety = ''Russet'', Origin = ''Idaho'', Weight = 0.3,
     Quality = Premium, HarvestDate = 100 * Day, Price = 2\<rparr>"

definition sample_store :: InMemoryStorage where
  "sample_store = snd (AddPotato sample_potato NewInMemoryStorage)"

definition sample_recipe :: "string \<Rightarrow> string \<Rightarrow> string \<Rightarrow> Recipe" where
  "sample_recipe ident variety difficulty =
     \<lparr>recipe_ID = ident, Name = ''Potato Wedges'', recipe_Variety = variety,
      CookingTime = 30, Difficulty = difficulty, Ingredients = [''Salt and pepper''],
      Instructions = [''Season to taste''], Servings = 4\<rparr>"

definition recipe_store :: InMemoryStorage where
  "recipe_store = NewInMemoryStorage\<lparr>recipes :=
     [''r1'' \<mapsto> sample_recipe ''r1'' ''Russet'' ''Easy'',
      ''r2'' \<mapsto> sample_recipe ''r2'' ''Yukon Gold'' ''Medium'',
      ''r3'' \<mapsto> sample_recipe ''r3'' ''Russet'' ''Hard'']\<rparr>"

definition aged :: "string \<Rightarrow> string \<Rightarrow> int \<Rightarrow> Potato" where
  "aged ident q n = \<lparr>ID = ident, Variety = ''Russet'', Origin = ''Idaho'', Weight = 0.3,
     Quality = q, HarvestDate = 200 * Day - n * Day, Price = 2\<rparr>"

definition aging_store :: InMemoryStorage where
  "aging_store = NewInMemoryStorage\<lparr>potatoes :=
     [''a'' \<mapsto> aged ''a'' Premium 40, ''b'' \<mapsto> aged ''b'' Standard 65,
      ''c'' \<mapsto> aged ''c'' Premium 10, ''d'' \<mapsto> aged ''d'' Standard 10,
      ''e'' \<mapsto> aged ''e'' Economy 10]\<rparr>"

definition old_premium_store :: InMemoryStorage where
  "old_premium_store = NewInMemoryStorage\<lparr>potatoes := [''f'' \<mapsto> aged ''f'' Premium 65]\<rparr>"

text \<open>
  Two stores built through the service, in which \<open>UpdatePotato\<close> has put a record
  under a key that is not its identifier.
\<close>

definition mislabelled_store :: InMemoryStorage where
  "mislabelled_store =
     snd (PotatoService_UpdatePotato ''k1'' (aged ''zz'' Premium 40)
       (snd (CreatePotato (200 * Day) (aged ''zz'' Economy 10)
         (snd (CreatePotato (200 * Day) (aged ''k1'' Standard 10) NewInMemoryStorage)))))"

definition twin_store :: InMemoryStorage where
  "twin_store =
     snd (PotatoService_UpdatePotato ''a'' (aged ''b'' Premium 40)
       (snd (CreatePotato (200 * Day) ((aged ''b'' Premium 40)\<lparr>Price := 5\<rparr>)
         (snd (CreatePotato (200 * Day) (aged ''a'' Standard 10) NewInMemoryStorage)))))"






section \<open>Store operations\<close>

text \<open>
  C9: the add operations of the store never fail, whatever the entity: they return a nil
  error and store the entity under its identifier, so that the next get on that
  identifier returns exactly this entity. No validity condition is assumed.
\<close>

theorem add_never_fails:
  "fst (AddPotato potato s) = None
   \<and> GetPotato (ID potato) (snd (AddPotato potato s)) = Inr potato
   \<and> potatoes (snd (AddPotato potato s)) = (potatoes s)(ID potato \<mapsto> potato)
   \<and> recipes (snd (AddPotato potato s)) = recipes s
   \<and> fst (AddRecipe recipe s) = None
   \<and> GetRecipe (recipe_ID recipe) (snd (AddRecipe recipe s)) = Inr recipe
   \<and> recipes (snd (AddRecipe recipe s)) = (recipes s)(recipe_ID recipe \<mapsto> recipe)
   \<and> potatoes (snd (AddRecipe recipe s)) = potatoes s"
  by (simp add: AddPotato_def AddRecipe_def GetPotato_def GetRecipe_def)

theorem add_never_fails_witness:
  "validatePotato (sample_potato\<lparr>ID := [], Weight := - 1, Price := - 2\<rparr>) = Some ErrInvalidPotato
   \<and> fst (AddPotato (sample_potato\<lparr>ID := [], Weight := - 1, Price := - 2\<rparr>) sample_store) = None
   \<and> GetPotato [] (snd (AddPotato (sample_potato\<lparr>ID := [], Weight := - 1, Price := - 2\<rparr>) sample_store))
       = Inr (sample_potato\<lparr>ID := [], Weight := - 1, Price := - 2\<rparr>)
   \<and> validateRecipe (sample_recipe [] ''Russet'' ''Easy'') = Some ErrInvalidRecipe
   \<and> fst (AddRecipe (sample_recipe [] ''Russet'' ''Easy'') sample_store) = None
   \<and> GetRecipe [] (snd (AddRecipe (sample_recipe [] ''Russet'' ''Easy'') sample_store))
       = Inr (sample_recipe [] ''Russet'' ''Easy'')"
  using add_never_fails [of "sample_potato\<lparr>ID := [], Weight := - 1, Price := - 2\<rparr>" sample_store
      "sample_recipe [] ''Russet'' ''Easy''"]
  by (simp add: validatePotato_def validateRecipe_def sample_recipe_def)

text \<open>
  C5: update and delete fail with NotFound exactly when the key is absent, and then leave
  the store as it was; when the key is present, update puts the given entity under the
  key and delete removes the key, all other keys and the recipes being untouched.
\<close>

theorem update_delete_not_found:
  "(fst (UpdatePotato ident potato s) = Some ErrNotFound \<longleftrightarrow> potatoes s ident = None)
   \<and> (fst (DeletePotato ident s) = Some ErrNotFound \<longleftrightarrow> potatoes s ident = None)
   \<and> (potatoes s ident = None \<longrightarrow>
        snd (UpdatePotato ident potato s) = s \<and> snd (DeletePotato ident s) = s)
   \<and> (potatoes s ident \<noteq> None \<longrightarrow>
        fst (UpdatePotato ident potato s) = None
        \<and> GetPotato ident (snd (UpdatePotato ident potato s)) = Inr potato
        \<and> (\<forall>k. k \<noteq> ident \<longrightarrow>
              potatoes (snd (UpdatePotato ident potato s)) k = potatoes s k)
        \<and> recipes (snd (UpdatePotato ident potato s)) = recipes s
        \<and> fst (DeletePotato ident s) = None
        \<and> GetPotato ident (snd (DeletePotato ident s)) = Inl ErrNotFound
        \<and> dom (potatoes (snd (DeletePotato ident s))) = dom (potatoes s) - {ident}
        \<and> (\<forall>k. k \<noteq> ident \<longrightarrow>
              potatoes (snd (DeletePotato ident s)) k = potatoes s k)
        \<and> recipes (snd (DeletePotato ident s)) = recipes s)"
  by (cases "potatoes s ident") (auto simp: UpdatePotato_def DeletePotato_def GetPotato_def)

theorem update_delete_not_found_witness:
  "potatoes sample_store ''p1'' \<noteq> None
   \<and> fst (UpdatePotato ''p1'' (sample_potato\<lparr>Price := 5\<rparr>) sample_store) = None
   \<and> GetPotato ''p1'' (snd (UpdatePotato ''p1'' (sample_potato\<lparr>Price := 5\<rparr>) sample_store))
       = Inr (sample_potato\<lparr>Price := 5\<rparr>)
   \<and> GetPotato ''p1'' (snd (DeletePotato ''p1'' sample_store)) = Inl ErrNotFound
   \<and> potatoes sample_store ''p2'' = None
   \<and> fst (DeletePotato ''p2'' sample_store) = Some ErrNotFound
   \<and> snd (UpdatePotato ''p2'' sample_potato sample_store) = sample_store"
  using update_delete_not_found [of "''p1''" "sample_potato\<lparr>Price := 5\<rparr>" sample_store]
    update_delete_not_found [of "''p2''" sample_potato sample_store]
  by (simp add: sample_store_def sample_potato_def AddPotato_def NewInMemoryStorage_def)

section \<open>The lock\<close>

lemma enter_inside:
  "enter c s = Acquired s1 \<Longrightarrow> inside c s1 \<and> \<not> pending (mu s1) \<and> leave c s1 = s"
  by (cases "mode_of c")
     (auto simp: enter_def inside_def leave_def Lock_def RLock_def Unlock_def RUnlock_def
        split: if_splits)

text \<open>
  C1, as the specification has it, says that a call on one entity kind never makes a
  call on the other kind wait. It fails on the new store: once \<open>AddPotato\<close> holds the
  lock, neither \<open>GetRecipe\<close> nor \<open>AddRecipe\<close> can enter.
\<close>

theorem locks_shared_across_kinds_counterexample:
  "kind_of CallAddPotato \<noteq> kind_of CallGetRecipe
   \<and> kind_of CallAddPotato \<noteq> kind_of CallAddRecipe
   \<and> enter CallAddPotato NewInMemoryStorage
       = Acquired (NewInMemoryStorage\<lparr>mu := \<lparr>writer = True, pending = False, readers = 0\<rparr>\<rparr>)
   \<and> has_to_wait (enter CallGetRecipe
        (NewInMemoryStorage\<lparr>mu := \<lparr>writer = True, pending = False, readers = 0\<rparr>\<rparr>))
   \<and> has_to_wait (enter CallAddRecipe
        (NewInMemoryStorage\<lparr>mu := \<lparr>writer = True, pending = False, readers = 0\<rparr>\<rparr>))"
  by (simp add: enter_def Lock_def RLock_def NewInMemoryStorage_def)

text \<open>
  C1, amended: both entity kinds are guarded by the one lock \<open>mu\<close>, which every call
  takes, add, update and delete in exclusive mode and the reads in shared mode, and
  entering changes neither map. While a call \<open>c1\<close> is inside the store, a second call
  \<open>c2\<close> has to wait exactly when one of the two takes the lock in exclusive mode or a
  writer is already waiting for it, whatever kinds they work on.
\<close>

theorem one_lock_for_both_kinds:
  assumes "inside c1 s"
  shows "(has_to_wait (enter c2 s)
            \<longleftrightarrow> mode_of c1 = Exclusive \<or> mode_of c2 = Exclusive \<or> pending (mu s))
         \<and> potatoes (state_after (enter c2 s)) = potatoes s
         \<and> recipes (state_after (enter c2 s)) = recipes s
         \<and> (mode_of c2 = Exclusive
              \<longleftrightarrow> c2 \<in> {CallAddPotato, CallUpdatePotato, CallDeletePotato, CallAddRecipe})"
proof -
  have wait: "has_to_wait (enter c2 s)
      \<longleftrightarrow> mode_of c1 = Exclusive \<or> mode_of c2 = Exclusive \<or> pending (mu s)"
    using assms
    by (cases "mode_of c1"; cases "mode_of c2")
       (auto simp: enter_def inside_def Lock_def RLock_def)
  have frame: "potatoes (state_after (enter c2 s)) = potatoes s
      \<and> recipes (state_after (enter c2 s)) = recipes s"
    by (cases "mode_of c2") (auto simp: enter_def Lock_def RLock_def)
  have modes: "mode_of c2 = Exclusive
      \<longleftrightarrow> c2 \<in> {CallAddPotato, CallUpdatePotato, CallDeletePotato, CallAddRecipe}"
    by (cases c2) simp_all
  from wait frame modes show ?thesis by blast
qed

theorem one_lock_for_both_kinds_witness:
  "enter CallGetAllPotatoes NewInMemoryStorage
     = Acquired (NewInMemoryStorage\<lparr>mu := \<lparr>writer = False, pending = False, readers = 1\<rparr>\<rparr>)
   \<and> inside CallGetAllPotatoes
        (NewInMemoryStorage\<lparr>mu := \<lparr>writer = False, pending = False, readers = 1\<rparr>\<rparr>)
   \<and> \<not> has_to_wait (enter CallGetRecipe
        (NewInMemoryStorage\<lparr>mu := \<lparr>writer = False, pending = False, readers = 1\<rparr>\<rparr>))
   \<and> enter CallAddRecipe
        (NewInMemoryStorage\<lparr>mu := \<lparr>writer = False, pending = False, readers = 1\<rparr>\<rparr>)
       = Blocked (NewInMemoryStorage\<lparr>mu := \<lparr>writer = False, pending = True, readers = 1\<rparr>\<rparr>)
   \<and> inside CallGetAllPotatoes
        (NewInMemoryStorage\<lparr>mu := \<lparr>writer = False, pending = True, readers = 1\<rparr>\<rparr>)
   \<and> has_to_wait (enter CallGetRecipe
        (NewInMemoryStorage\<lparr>mu := \<lparr>writer = False, pending = True, readers = 1\<rparr>\<rparr>))"
proof -
  let ?s1 = "NewInMemoryStorage\<lparr>mu := \<lparr>writer = False, pending = False, readers = 1\<rparr>\<rparr>"
  let ?s2 = "NewInMemoryStorage\<lparr>mu := \<lparr>writer = False, pending = True, readers = 1\<rparr>\<rparr>"
  have e1: "enter CallGetAllPotatoes NewInMemoryStorage = Acquired ?s1"
    by (simp add: enter_def RLock_def NewInMemoryStorage_def)
  have e2: "enter CallAddRecipe ?s1 = Blocked ?s2"
    by (simp add: enter_def Lock_def NewInMemoryStorage_def)
  have i1: "inside CallGetAllPotatoes ?s1" and i2: "inside CallGetAllPotatoes ?s2"
    by (simp_all add: inside_def)
  from one_lock_for_both_kinds [OF i1, of CallGetRecipe]
    one_lock_for_both_kinds [OF i2, of CallGetRecipe] e1 e2 i1 i2
  show ?thesis by simp
qed

section \<open>Validation and creation\<close>

text \<open>
  C4: a potato with weight zero or negative, a negative price, an empty identifier or an
  empty variety is rejected by create and by update with one of the validation errors,
  and the store after the call is the store before it.
\<close>

theorem invalid_potato_rejected:
  assumes "Weight potato = 0 \<or> Weight potato < 0 \<or> Price potato < 0
           \<or> ID potato = [] \<or> Variety potato = []"
  shows "\<exists>err \<in> {ErrInvalidPotato, ErrInvalidWeight, ErrInvalidPrice}.
           CreatePotato now potato s = (Inl err, s)
           \<and> PotatoService_UpdatePotato ident potato s = (Inl err, s)"
  using assms by (auto simp: CreatePotato_def PotatoService_UpdatePotato_def validatePotato_def)

theorem invalid_potato_rejected_witness:
  "CreatePotato 7 (sample_potato\<lparr>Weight := 0\<rparr>) sample_store = (Inl ErrInvalidWeight, sample_store)
   \<and> PotatoService_UpdatePotato ''p1'' (sample_potato\<lparr>Weight := 0\<rparr>) sample_store
       = (Inl ErrInvalidWeight, sample_store)
   \<and> CreatePotato 7 (sample_potato\<lparr>Weight := - 1\<rparr>) sample_store = (Inl ErrInvalidWeight, sample_store)
   \<and> PotatoService_UpdatePotato ''p1'' (sample_potato\<lparr>Price := - 1\<rparr>) sample_store
       = (Inl ErrInvalidPrice, sample_store)
   \<and> CreatePotato 7 (sample_potato\<lparr>ID := []\<rparr>) sample_store = (Inl ErrInvalidPotato, sample_store)
   \<and> PotatoService_UpdatePotato ''p1'' (sample_potato\<lparr>Variety := []\<rparr>) sample_store
       = (Inl ErrInvalidPotato, sample_store)"
proof -
  have v: "validatePotato (sample_potato\<lparr>Weight := 0\<rparr>) = Some ErrInvalidWeight"
    "validatePotato (sample_potato\<lparr>Weight := - 1\<rparr>) = Some ErrInvalidWeight"
    "validatePotato (sample_potato\<lparr>Price := - 1\<rparr>) = Some ErrInvalidPrice"
    "validatePotato (sample_potato\<lparr>ID := []\<rparr>) = Some ErrInvalidPotato"
    "validatePotato (sample_potato\<lparr>Variety := []\<rparr>) = Some ErrInvalidPotato"
    by (simp_all add: validatePotato_def sample_potato_def)
  have e: "(\<exists>err \<in> {ErrInvalidPotato, ErrInvalidWeight, ErrInvalidPrice}.
        CreatePotato now p s = (Inl err, s) \<and> PotatoService_UpdatePotato ident p s = (Inl err, s))
      \<Longrightarrow> validatePotato p = Some err'
      \<Longrightarrow> CreatePotato now p s = (Inl err', s) \<and> PotatoService_UpdatePotato ident p s = (Inl err', s)"
    for now p s ident err'
    by (auto simp: CreatePotato_def)
  show ?thesis
    using e [OF invalid_potato_rejected [of "sample_potato\<lparr>Weight := 0\<rparr>" 7 sample_store "''p1''"] v(1)]
      e [OF invalid_potato_rejected [of "sample_potato\<lparr>Weight := - 1\<rparr>" 7 sample_store "''p1''"] v(2)]
      e [OF invalid_potato_rejected [of "sample_potato\<lparr>Price := - 1\<rparr>" 7 sample_store "''p1''"] v(3)]
      e [OF invalid_potato_rejected [of "sample_potato\<lparr>ID := []\<rparr>" 7 sample_store "''p1''"] v(4)]
      e [OF invalid_potato_rejected [of "sample_potato\<lparr>Variety := []\<rparr>" 7 sample_store "''p1''"] v(5)]
    by (simp add: sample_potato_def)
qed

text \<open>
  C10: creating a valid potato succeeds. With a zero harvest date the record returned and
  stored is the input with the harvest date set to the current time and every other
  field as given; with any other harvest date it is the input itself.
\<close>

theorem create_stamps_zero_harvest:
  assumes "validatePotato potato = None"
  shows "(IsZero (HarvestDate potato) \<longrightarrow>
            fst (CreatePotato now potato s) = Inr (potato\<lparr>HarvestDate := now\<rparr>)
            \<and> GetPotato (ID potato) (snd (CreatePotato now potato s))
                = Inr (potato\<lparr>HarvestDate := now\<rparr>))
         \<and> (\<not> IsZero (HarvestDate potato) \<longrightarrow>
            fst (CreatePotato now potato s) = Inr potato
            \<and> GetPotato (ID potato) (snd (CreatePotato now potato s)) = Inr potato)
         \<and> (\<forall>k. k \<noteq> ID potato \<longrightarrow> potatoes (snd (CreatePotato now potato s)) k = potatoes s k)
         \<and> recipes (snd (CreatePotato now potato s)) = recipes s"
  using assms by (simp add: CreatePotato_def AddPotato_def GetPotato_def Let_def)

theorem create_stamps_zero_harvest_witness:
  "validatePotato (sample_potato\<lparr>HarvestDate := 0\<rparr>) = None
   \<and> IsZero (HarvestDate (sample_potato\<lparr>HarvestDate := 0\<rparr>))
   \<and> GetPotato ''p1'' (snd (CreatePotato 42 (sample_potato\<lparr>HarvestDate := 0\<rparr>) NewInMemoryStorage))
       = Inr (sample_potato\<lparr>HarvestDate := 42\<rparr>)
   \<and> validatePotato sample_potato = None
   \<and> \<not> IsZero (HarvestDate sample_potato)
   \<and> GetPotato ''p1'' (snd (CreatePotato 42 sample_potato NewInMemoryStorage)) = Inr sample_potato"
proof -
  have v0: "validatePotato (sample_potato\<lparr>HarvestDate := 0\<rparr>) = None"
    by (simp add: validatePotato_def sample_potato_def)
  have v1: "validatePotato sample_potato = None"
    by (simp add: validatePotato_def sample_potato_def)
  have z0: "IsZero (HarvestDate (sample_potato\<lparr>HarvestDate := 0\<rparr>))"
    by (simp add: IsZero_def)
  have z1: "\<not> IsZero (HarvestDate sample_potato)"
    by (simp add: IsZero_def sample_potato_def Day_def)
  have i: "ID sample_potato = ''p1''"
    by (simp add: sample_potato_def)
  from create_stamps_zero_harvest [OF v0, of 42 NewInMemoryStorage]
    create_stamps_zero_harvest [OF v1, of 42 NewInMemoryStorage] v0 v1 z0 z1 i
  show ?thesis by simp
qed

section \<open>Age in days and freshness\<close>

text \<open>The conversion to an integer of a quotient of integers is division that rounds
  towards zero.\<close>

lemma go_int_of_int_div:
  assumes "0 < n"
  shows "go_int (real_of_int d / real_of_int n) = (if 0 \<le> d then d div n else - ((- d) div n))"
proof (cases "0 \<le> d")
  case True
  then have "0 \<le> real_of_int d / real_of_int n" using assms by simp
  then show ?thesis using True by (simp add: go_int_def floor_divide_of_int_eq)
next
  case False
  then have neg: "real_of_int d / real_of_int n < 0" using assms by (simp add: divide_neg_pos)
  have "\<lceil>real_of_int d / real_of_int n\<rceil> = - \<lfloor>real_of_int (- d) / real_of_int n\<rfloor>"
    by (simp add: ceiling_def)
  also have "\<dots> = - ((- d) div n)"
    by (simp only: floor_divide_of_int_eq)
  finally show ?thesis using False neg by (simp add: go_int_def)
qed

lemma daysSinceHarvest_div:
  "daysSinceHarvest now potato =
     (if 0 \<le> Since now (HarvestDate potato) then Since now (HarvestDate potato) div Day
      else - ((- Since now (HarvestDate potato)) div Day))"
proof -
  have pos: "0 < Day" by (simp add: Day_def)
  have "Hours d / 24 = real_of_int d / real_of_int Day" for d
    by (simp add: Hours_def Day_def)
  then have "daysSinceHarvest now potato =
      go_int (real_of_int (Since now (HarvestDate potato)) / real_of_int Day)"
    by (simp only: daysSinceHarvest_def)
  then show ?thesis
    by (simp only: go_int_of_int_div [OF pos])
qed

text \<open>A record harvested \<open>n\<close> days before \<open>now\<close> has the age \<open>n\<close>.\<close>

lemma daysSinceHarvest_ago:
  assumes "0 \<le> n" and "n \<le> 100000"
  shows "daysSinceHarvest now (potato\<lparr>HarvestDate := now - n * Day\<rparr>) = n"
proof -
  have "Since now (now - n * Day) = n * Day"
    using assms by (simp add: Since_def Let_def maxDuration_def minDuration_def Day_def)
  moreover have "0 \<le> n * Day" using assms by (simp add: Day_def)
  moreover have "n * Day div Day = n" by (simp add: Day_def)
  ultimately show ?thesis
    by (simp add: daysSinceHarvest_div)
qed

text \<open>
  C7: the freshness of a record depends on its age in whole days alone: 0 to 7 days is
  Fresh, 8 to 30 Good, 31 to 90 Fair, 91 and more Old. The function takes no store.
\<close>

theorem freshness_by_age:
  "(0 \<le> daysSinceHarvest now potato \<and> daysSinceHarvest now potato \<le> 7
      \<longrightarrow> CalculateFreshness now potato = ''Fresh'')
   \<and> (8 \<le> daysSinceHarvest now potato \<and> daysSinceHarvest now potato \<le> 30
      \<longrightarrow> CalculateFreshness now potato = ''Good'')
   \<and> (31 \<le> daysSinceHarvest now potato \<and> daysSinceHarvest now potato \<le> 90
      \<longrightarrow> CalculateFreshness now potato = ''Fair'')
   \<and> (91 \<le> daysSinceHarvest now potato \<longrightarrow> CalculateFreshness now potato = ''Old'')
   \<and> (daysSinceHarvest now potato = daysSinceHarvest now' potato'
      \<longrightarrow> CalculateFreshness now potato = CalculateFreshness now' potato')"
  by (simp add: CalculateFreshness_def Let_def)

theorem freshness_by_age_witness:
  "CalculateFreshness (200 * Day) (sample_potato\<lparr>HarvestDate := 200 * Day - 0 * Day\<rparr>) = ''Fresh''
   \<and> CalculateFreshness (200 * Day) (sample_potato\<lparr>HarvestDate := 200 * Day - 7 * Day\<rparr>) = ''Fresh''
   \<and> CalculateFreshness (200 * Day) (sample_potato\<lparr>HarvestDate := 200 * Day - 8 * Day\<rparr>) = ''Good''
   \<and> CalculateFreshness (200 * Day) (sample_potato\<lparr>HarvestDate := 200 * Day - 30 * Day\<rparr>) = ''Good''
   \<and> CalculateFreshness (200 * Day) (sample_potato\<lparr>HarvestDate := 200 * Day - 31 * Day\<rparr>) = ''Fair''
   \<and> CalculateFreshness (200 * Day) (sample_potato\<lparr>HarvestDate := 200 * Day - 90 * Day\<rparr>) = ''Fair''
   \<and> CalculateFreshness (200 * Day) (sample_potato\<lparr>HarvestDate := 200 * Day - 91 * Day\<rparr>) = ''Old''"
  using
    freshness_by_age [of "200 * Day" "sample_potato\<lparr>HarvestDate := 200 * Day - 0 * Day\<rparr>"]
    freshness_by_age [of "200 * Day" "sample_potato\<lparr>HarvestDate := 200 * Day - 7 * Day\<rparr>"]
    freshness_by_age [of "200 * Day" "sample_potato\<lparr>HarvestDate := 200 * Day - 8 * Day\<rparr>"]
    freshness_by_age [of "200 * Day" "sample_potato\<lparr>HarvestDate := 200 * Day - 30 * Day\<rparr>"]
    freshness_by_age [of "200 * Day" "sample_potato\<lparr>HarvestDate := 200 * Day - 31 * Day\<rparr>"]
    freshness_by_age [of "200 * Day" "sample_potato\<lparr>HarvestDate := 200 * Day - 90 * Day\<rparr>"]
    freshness_by_age [of "200 * Day" "sample_potato\<lparr>HarvestDate := 200 * Day - 91 * Day\<rparr>"]
  by (simp only: daysSinceHarvest_ago) simp

section \<open>Recipe recommendation\<close>

lemma firstOfDifficulty_filter:
  "firstOfDifficulty difficulty (filter P rs) =
     find (\<lambda>r. P r \<and> (difficulty = [] \<or> Difficulty r = difficulty)) rs"
  by (induction rs) auto

lemma head_filter_find:
  "(case filter P rs of r0 # _ \<Rightarrow> Inr r0 | [] \<Rightarrow> Inl e) =
     (case find P rs of Some r \<Rightarrow> Inr r | None \<Rightarrow> Inl e)"
  by (induction rs) auto

text \<open>
  C8: among the stored recipes, in the order the store hands them out, the recommendation
  is the first one of the variety that also has the difficulty asked for (any recipe of
  the variety when no difficulty is given); failing that, the first one of the variety;
  failing that, an error.
\<close>

theorem recommend_first_match:
  "RecommendRecipe ks variety difficulty s =
     (case find (\<lambda>r. recipe_Variety r = variety \<and> (difficulty = [] \<or> Difficulty r = difficulty))
             (GetAllRecipes ks s) of
        Some r \<Rightarrow> Inr r
      | None \<Rightarrow>
          (case find (\<lambda>r. recipe_Variety r = variety) (GetAllRecipes ks s) of
             Some r \<Rightarrow> Inr r
           | None \<Rightarrow> Inl ErrNoRecipesForVariety))"
proof -
  let ?all = "GetAllRecipes ks s"
  have rs: "GetRecipesByVariety ks variety s = filter (\<lambda>r. recipe_Variety r = variety) ?all"
    by (simp add: GetRecipesByVariety_def GetAllRecipes_def)
  show ?thesis
    unfolding RecommendRecipe_def Let_def rs firstOfDifficulty_filter head_filter_find ..
qed

theorem recommend_first_match_witness:
  "RecommendRecipe [''r1'', ''r2'', ''r3''] ''Russet'' ''Hard'' recipe_store
     = Inr (sample_recipe ''r3'' ''Russet'' ''Hard'')
   \<and> RecommendRecipe [''r1'', ''r2'', ''r3''] ''Russet'' [] recipe_store
     = Inr (sample_recipe ''r1'' ''Russet'' ''Easy'')
   \<and> RecommendRecipe [''r1'', ''r2'', ''r3''] ''Russet'' ''Medium'' recipe_store
     = Inr (sample_recipe ''r1'' ''Russet'' ''Easy'')
   \<and> RecommendRecipe [''r3'', ''r2'', ''r1''] ''Russet'' ''Medium'' recipe_store
     = Inr (sample_recipe ''r3'' ''Russet'' ''Hard'')
   \<and> RecommendRecipe [''r1'', ''r2'', ''r3''] ''Fingerling'' ''Easy'' recipe_store
     = Inl ErrNoRecipesForVariety"
  using recommend_first_match [of "[''r1'', ''r2'', ''r3'']" "''Russet''" "''Hard''" recipe_store]
    recommend_first_match [of "[''r1'', ''r2'', ''r3'']" "''Russet''" "[]" recipe_store]
    recommend_first_match [of "[''r1'', ''r2'', ''r3'']" "''Russet''" "''Medium''" recipe_store]
    recommend_first_match [of "[''r3'', ''r2'', ''r1'']" "''Russet''" "''Medium''" recipe_store]
    recommend_first_match [of "[''r1'', ''r2'', ''r3'']" "''Fingerling''" "''Easy''" recipe_store]
  by (simp add: GetAllRecipes_def recipe_store_def sample_recipe_def)

section \<open>The degrader\<close>

text \<open>Where every key of the order is in the map, the values met are those of the keys.\<close>

lemma range_values_map:
  "set ks \<subseteq> dom m \<Longrightarrow> range_values ks m = map (\<lambda>k. the (m k)) ks"
  by (induction ks) auto

lemma snapshot_IDs:
  assumes "well_keyed s" and "iteration_order ks (potatoes s)"
  shows "map ID (GetAllPotatoes ks s) = ks"
    and "\<forall>p \<in> set (GetAllPotatoes ks s). potatoes s (ID p) = Some p"
proof -
  have sub: "set ks \<subseteq> dom (potatoes s)"
    using assms(2) by (simp add: iteration_order_def)
  then have snap: "GetAllPotatoes ks s = map (\<lambda>k. the (potatoes s k)) ks"
    by (simp add: GetAllPotatoes_def range_values_map)
  have key: "ID (the (potatoes s k)) = k \<and> potatoes s k = Some (the (potatoes s k))"
    if "k \<in> set ks" for k
  proof -
    from that sub obtain p where p: "potatoes s k = Some p" by blast
    with assms(1) have "ID p = k" unfolding well_keyed_def by blast
    with p show ?thesis by simp
  qed
  show "map ID (GetAllPotatoes ks s) = ks"
    unfolding snap map_map by (rule map_idI) (use key in auto)
  show "\<forall>p \<in> set (GetAllPotatoes ks s). potatoes s (ID p) = Some p"
  proof
    fix p assume "p \<in> set (GetAllPotatoes ks s)"
    then obtain k where "k \<in> set ks" and "p = the (potatoes s k)"
      unfolding snap by auto
    with key [of k] show "potatoes s (ID p) = Some p" by metis
  qed
qed

lemma degradeLoop_frame:
  "recipes (fst (degradeLoop now ps (s, n))) = recipes s
   \<and> mu (fst (degradeLoop now ps (s, n))) = mu s
   \<and> dom (potatoes (fst (degradeLoop now ps (s, n)))) = dom (potatoes s)"
proof (induction ps arbitrary: s n)
  case Nil
  show ?case by simp
next
  case (Cons p ps)
  have upd: "recipes (snd (UpdatePotato k q s)) = recipes s
      \<and> mu (snd (UpdatePotato k q s)) = mu s
      \<and> dom (potatoes (snd (UpdatePotato k q s))) = dom (potatoes s)" for k q
    by (auto simp: UpdatePotato_def split: option.splits)
  show ?case
    by (simp add: Let_def Cons.IH upd)
qed

lemma degradeLoop_potatoes:
  assumes "distinct (map ID ps)" and "\<forall>p \<in> set ps. potatoes s (ID p) = Some p"
  shows "potatoes (fst (degradeLoop now ps (s, n))) k =
           (if k \<in> ID ` set ps
            then map_option (\<lambda>p. degraded (daysSinceHarvest now p) p) (potatoes s k)
            else potatoes s k)"
  using assms
proof (induction ps arbitrary: s n)
  case Nil
  show ?case by simp
next
  case (Cons p ps)
  have here: "potatoes s (ID p) = Some p" using Cons.prems(2) by simp
  have fresh: "ID p \<notin> ID ` set ps" using Cons.prems(1) by auto
  have dist: "distinct (map ID ps)" using Cons.prems(1) by simp
  let ?d = "degraded (daysSinceHarvest now p) p"
  have upd: "snd (UpdatePotato (ID p) q s) = s\<lparr>potatoes := (potatoes s)(ID p \<mapsto> q)\<rparr>" for q
    using here by (simp add: UpdatePotato_def)
  have "\<exists>t n'. degradeLoop now (p # ps) (s, n) = degradeLoop now ps (t, n')
          \<and> potatoes t = (potatoes s)(ID p \<mapsto> ?d)"
  proof (cases "30 < daysSinceHarvest now p \<and> Quality p = Premium")
    case True
    then have "degradeLoop now (p # ps) (s, n) =
        degradeLoop now ps (s\<lparr>potatoes := (potatoes s)(ID p \<mapsto> p\<lparr>Quality := Standard\<rparr>)\<rparr>, n + 1)"
      by (simp add: upd Let_def)
    moreover have "?d = p\<lparr>Quality := Standard\<rparr>"
      using True by (simp add: degraded_def)
    ultimately show ?thesis by force
  next
    case notPremium: False
    show ?thesis
    proof (cases "60 < daysSinceHarvest now p \<and> Quality p = Standard")
      case True
      then have "degradeLoop now (p # ps) (s, n) =
          degradeLoop now ps (s\<lparr>potatoes := (potatoes s)(ID p \<mapsto> p\<lparr>Quality := Economy\<rparr>)\<rparr>, n + 1)"
        using notPremium by (simp add: upd Let_def)
      moreover have "?d = p\<lparr>Quality := Economy\<rparr>"
        using True notPremium by (simp add: degraded_def)
      ultimately show ?thesis by force
    next
      case False
      then have "degradeLoop now (p # ps) (s, n) = degradeLoop now ps (s, n)"
        using notPremium by (auto simp: Let_def)
      moreover have "?d = p"
        using False notPremium by (auto simp: degraded_def)
      moreover have "potatoes s = (potatoes s)(ID p \<mapsto> p)"
        using here by (simp add: map_upd_triv)
      ultimately show ?thesis by metis
    qed
  qed
  then obtain t n' where eq: "degradeLoop now (p # ps) (s, n) = degradeLoop now ps (t, n')"
    and pt: "potatoes t = (potatoes s)(ID p \<mapsto> ?d)"
    by blast
  have rest: "\<forall>q \<in> set ps. potatoes t (ID q) = Some q"
  proof
    fix q assume q: "q \<in> set ps"
    then have "ID q \<noteq> ID p" using fresh by (metis imageI)
    moreover have "potatoes s (ID q) = Some q" using Cons.prems(2) q by simp
    ultimately show "potatoes t (ID q) = Some q" by (simp add: pt)
  qed
  have "potatoes (fst (degradeLoop now ps (t, n'))) k =
           (if k \<in> ID ` set ps
            then map_option (\<lambda>p. degraded (daysSinceHarvest now p) p) (potatoes t k)
            else potatoes t k)"
    by (rule Cons.IH [OF dist rest])
  then show ?case
    unfolding eq using fresh here by (auto simp: pt)
qed

lemma degradePotatoQuality_potatoes:
  assumes "well_keyed s" and "iteration_order ks (potatoes s)"
  shows "potatoes (degradePotatoQuality now ks s) k =
           map_option (\<lambda>p. degraded (daysSinceHarvest now p) p) (potatoes s k)"
proof -
  have ids: "map ID (GetAllPotatoes ks s) = ks"
    and snap: "\<forall>p \<in> set (GetAllPotatoes ks s). potatoes s (ID p) = Some p"
    using snapshot_IDs [OF assms] by auto
  have d: "distinct (map ID (GetAllPotatoes ks s))"
    using assms(2) by (simp add: ids iteration_order_def)
  have img: "ID ` set (GetAllPotatoes ks s) = dom (potatoes s)"
    using assms(2) ids by (metis iteration_order_def set_map)
  show ?thesis
    unfolding degradePotatoQuality_def degradeLoop_potatoes [OF d snap] img
    by (cases "potatoes s k") auto
qed

lemma degradePotatoQuality_frame:
  "recipes (degradePotatoQuality now ks s) = recipes s
   \<and> mu (degradePotatoQuality now ks s) = mu s
   \<and> dom (potatoes (degradePotatoQuality now ks s)) = dom (potatoes s)"
  by (simp add: degradePotatoQuality_def degradeLoop_frame)

lemma degraded_ID: "ID (degraded d p) = ID p"
  by (simp add: degraded_def)

lemma well_keyed_degradePotatoQuality:
  assumes "well_keyed s" and "iteration_order ks (potatoes s)"
  shows "well_keyed (degradePotatoQuality now ks s)"
  using assms(1)
  by (auto simp: well_keyed_def degradePotatoQuality_potatoes [OF assms] degraded_ID)

lemma iteration_order_degradePotatoQuality:
  "iteration_order ks' (potatoes (degradePotatoQuality now ks s)) = iteration_order ks' (potatoes s)"
  by (simp add: iteration_order_def degradePotatoQuality_frame)

text \<open>
  The keying of the store is kept by add, delete and create, and by update when the
  record passed has the key as its identifier, which neither the store nor the service
  checks: the HTTP handlers set the identifier to the key before they call update.
\<close>

lemma well_keyed_calls:
  "well_keyed NewInMemoryStorage"
  "well_keyed s \<Longrightarrow> well_keyed (snd (AddPotato potato s))"
  "well_keyed s \<Longrightarrow> ID potato = ident \<Longrightarrow> well_keyed (snd (UpdatePotato ident potato s))"
  "well_keyed s \<Longrightarrow> ID potato = ident
     \<Longrightarrow> well_keyed (snd (PotatoService_UpdatePotato ident potato s))"
  "well_keyed s \<Longrightarrow> well_keyed (snd (DeletePotato ident s))"
  "well_keyed s \<Longrightarrow> well_keyed (snd (AddRecipe recipe s))"
  "well_keyed s \<Longrightarrow> well_keyed (snd (CreatePotato now potato s))"
  by (auto simp: well_keyed_def NewInMemoryStorage_def AddPotato_def UpdatePotato_def
      PotatoService_UpdatePotato_def DeletePotato_def AddRecipe_def CreatePotato_def Let_def
      split: option.splits if_splits)

lemma aged_fields:
  "ID (aged i q n) = i" "Quality (aged i q n) = q" "(aged i q n)\<lparr>Quality := q'\<rparr> = aged i q' n"
  "validatePotato (aged (c # cs) q n) = None"
  "validatePotato ((aged (c # cs) q n)\<lparr>Price := 5\<rparr>) = None"
  by (simp_all add: aged_def validatePotato_def)

lemma aged_not_zero:
  "0 \<le> n \<Longrightarrow> n \<le> 100 \<Longrightarrow> \<not> IsZero (HarvestDate (aged i q n))"
  "0 \<le> n \<Longrightarrow> n \<le> 100 \<Longrightarrow> \<not> IsZero (HarvestDate ((aged i q n)\<lparr>Price := 5\<rparr>))"
  by (simp_all add: aged_def IsZero_def Day_def)

lemma mislabelled_store_potatoes:
  "potatoes mislabelled_store =
     [''k1'' \<mapsto> aged ''zz'' Premium 40, ''zz'' \<mapsto> aged ''zz'' Economy 10]"
  by (rule ext)
     (simp add: mislabelled_store_def PotatoService_UpdatePotato_def UpdatePotato_def
        CreatePotato_def AddPotato_def NewInMemoryStorage_def Let_def aged_fields aged_not_zero)

lemma twin_store_potatoes:
  "potatoes twin_store =
     [''a'' \<mapsto> aged ''b'' Premium 40, ''b'' \<mapsto> (aged ''b'' Premium 40)\<lparr>Price := 5\<rparr>]"
  by (rule ext)
     (simp add: twin_store_def PotatoService_UpdatePotato_def UpdatePotato_def
        CreatePotato_def AddPotato_def NewInMemoryStorage_def Let_def aged_fields aged_not_zero)

lemma storage_eqI:
  fixes a b :: InMemoryStorage
  assumes "potatoes a = potatoes b" and "recipes a = recipes b" and "mu a = mu b"
  shows "a = b"
  using assms by (intro InMemoryStorage.equality) simp_all

lemma qualities_distinct:
  "Premium \<noteq> Standard" "Standard \<noteq> Economy" "Premium \<noteq> Economy"
  by (simp_all add: Premium_def Standard_def Economy_def)

lemma daysSinceHarvest_degraded:
  "daysSinceHarvest now (degraded d p) = daysSinceHarvest now p"
  by (simp add: daysSinceHarvest_def degraded_def)

lemma degraded_twice:
  "degraded d (degraded d (degraded d p)) = degraded d (degraded d p)"
  using qualities_distinct by (auto simp: degraded_def)

lemma degraded_once:
  "\<not> (60 < d \<and> Quality p = Premium) \<Longrightarrow> degraded d (degraded d p) = degraded d p"
  using qualities_distinct by (auto simp: degraded_def)

lemma daysSinceHarvest_aged:
  assumes "0 \<le> n" and "n \<le> 100000"
  shows "daysSinceHarvest (200 * Day) (aged ident q n) = n"
  using daysSinceHarvest_ago [OF assms, of "200 * Day" "aged ident q 0"]
  by (simp add: aged_def)

text \<open>
  C3, as the specification has it, speaks of every record of every store. It fails on a
  store that the service can build, where \<open>UpdatePotato\<close> has put a record with the
  identifier \<open>zz\<close> under the key \<open>k1\<close>: the pass leaves that record Premium at 40 days,
  and writes its Standard copy over the record under \<open>zz\<close>, which was Economy and 10
  days old.
\<close>

theorem degrader_ill_keyed_counterexample:
  "potatoes mislabelled_store =
     [''k1'' \<mapsto> aged ''zz'' Premium 40, ''zz'' \<mapsto> aged ''zz'' Economy 10]
   \<and> iteration_order [''k1'', ''zz''] (potatoes mislabelled_store)
   \<and> daysSinceHarvest (200 * Day) (aged ''zz'' Premium 40) = 40
   \<and> daysSinceHarvest (200 * Day) (aged ''zz'' Economy 10) = 10
   \<and> potatoes (degradePotatoQuality (200 * Day) [''k1'', ''zz''] mislabelled_store) ''k1''
       = Some (aged ''zz'' Premium 40)
   \<and> potatoes (degradePotatoQuality (200 * Day) [''k1'', ''zz''] mislabelled_store) ''zz''
       = Some (aged ''zz'' Standard 40)
   \<and> quality_rank (Quality (aged ''zz'' Economy 10))
       < quality_rank (Quality (aged ''zz'' Standard 40))"
proof -
  note m = mislabelled_store_potatoes
  have io: "iteration_order [''k1'', ''zz''] (potatoes mislabelled_store)"
    by (auto simp: iteration_order_def m)
  have snap: "GetAllPotatoes [''k1'', ''zz''] mislabelled_store
      = [aged ''zz'' Premium 40, aged ''zz'' Economy 10]"
    by (simp add: GetAllPotatoes_def m)
  have after: "potatoes (degradePotatoQuality (200 * Day) [''k1'', ''zz''] mislabelled_store)
      = [''k1'' \<mapsto> aged ''zz'' Premium 40, ''zz'' \<mapsto> aged ''zz'' Standard 40]"
    using qualities_distinct
    by (simp add: degradePotatoQuality_def snap Let_def UpdatePotato_def m
        daysSinceHarvest_aged aged_fields)
  have r: "quality_rank Economy < quality_rank Standard"
    using qualities_distinct by (simp add: quality_rank_def)
  show ?thesis
    using io r by (simp add: m after daysSinceHarvest_aged aged_fields)
qed

text \<open>
  C3, amended: in a store where every record is kept under its own identifier, one pass
  of the degrader takes each record by its age in whole days: older than 30 days and
  Premium, it becomes Standard; otherwise older than 60 days and Standard, it becomes
  Economy; otherwise it is unchanged. The quality never gets better, no key appears or
  goes, and the recipes are untouched.
\<close>

theorem degrader_pass:
  assumes "well_keyed s" and "iteration_order ks (potatoes s)" and "potatoes s k = Some potato"
  shows "potatoes (degradePotatoQuality now ks s) k = Some
           (if 30 < daysSinceHarvest now potato \<and> Quality potato = Premium
              then potato\<lparr>Quality := Standard\<rparr>
            else if 60 < daysSinceHarvest now potato \<and> Quality potato = Standard
              then potato\<lparr>Quality := Economy\<rparr>
            else potato)
         \<and> (\<exists>potato'. potatoes (degradePotatoQuality now ks s) k = Some potato'
               \<and> quality_rank (Quality potato') \<le> quality_rank (Quality potato))
         \<and> dom (potatoes (degradePotatoQuality now ks s)) = dom (potatoes s)
         \<and> recipes (degradePotatoQuality now ks s) = recipes s"
proof -
  have p: "potatoes (degradePotatoQuality now ks s) k
      = Some (degraded (daysSinceHarvest now potato) potato)"
    by (simp add: degradePotatoQuality_potatoes [OF assms(1,2)] assms(3))
  have r: "quality_rank (Quality (degraded d potato)) \<le> quality_rank (Quality potato)" for d
    using qualities_distinct by (auto simp: degraded_def quality_rank_def)
  show ?thesis
    using p r [of "daysSinceHarvest now potato"]
    by (simp add: degradePotatoQuality_frame degraded_def)
qed

lemma well_keyed_aging_store: "well_keyed aging_store"
  by (auto simp: well_keyed_def aging_store_def aged_def split: if_splits)

lemma iteration_order_aging_store:
  "iteration_order [''e'', ''a'', ''d'', ''b'', ''c''] (potatoes aging_store)"
  by (auto simp: iteration_order_def aging_store_def)

theorem degrader_pass_witness:
  "potatoes (degradePotatoQuality (200 * Day) [''e'', ''a'', ''d'', ''b'', ''c''] aging_store) ''a''
     = Some (aged ''a'' Standard 40)
   \<and> potatoes (degradePotatoQuality (200 * Day) [''e'', ''a'', ''d'', ''b'', ''c''] aging_store) ''b''
     = Some (aged ''b'' Economy 65)
   \<and> potatoes (degradePotatoQuality (200 * Day) [''e'', ''a'', ''d'', ''b'', ''c''] aging_store) ''c''
     = Some (aged ''c'' Premium 10)
   \<and> potatoes (degradePotatoQuality (200 * Day) [''e'', ''a'', ''d'', ''b'', ''c''] aging_store) ''d''
     = Some (aged ''d'' Standard 10)
   \<and> potatoes (degradePotatoQuality (200 * Day) [''e'', ''a'', ''d'', ''b'', ''c''] aging_store) ''e''
     = Some (aged ''e'' Economy 10)"
proof -
  note wk = well_keyed_aging_store and io = iteration_order_aging_store
  have a: "potatoes aging_store ''a'' = Some (aged ''a'' Premium 40)"
    and b: "potatoes aging_store ''b'' = Some (aged ''b'' Standard 65)"
    and c: "potatoes aging_store ''c'' = Some (aged ''c'' Premium 10)"
    and d: "potatoes aging_store ''d'' = Some (aged ''d'' Standard 10)"
    and e: "potatoes aging_store ''e'' = Some (aged ''e'' Economy 10)"
    by (simp_all add: aging_store_def)
  have q: "Quality (aged i q n) = q" "(aged i q n)\<lparr>Quality := q'\<rparr> = aged i q' n" for i q n q'
    by (simp_all add: aged_def)
  show ?thesis
    using degrader_pass [OF wk io a, of "200 * Day"] degrader_pass [OF wk io b, of "200 * Day"]
      degrader_pass [OF wk io c, of "200 * Day"] degrader_pass [OF wk io d, of "200 * Day"]
      degrader_pass [OF wk io e, of "200 * Day"] qualities_distinct
    by (simp add: daysSinceHarvest_aged q)
qed

text \<open>
  C2, as the specification has it, says that a second pass over the same data changes
  nothing, for every store. It fails for a Premium record harvested 65 days ago: the
  first pass makes it Standard, the second one Economy. It also fails, with no such
  record, on a store that the service can build and in which two records have the same
  identifier: the first pass leaves under that identifier the copy of the record visited
  last, the second pass the copy of the other one.
\<close>

theorem degrader_twice_counterexample:
  "well_keyed old_premium_store
   \<and> iteration_order [''f''] (potatoes old_premium_store)
   \<and> potatoes (degradePotatoQuality (200 * Day) [''f''] old_premium_store) ''f''
       = Some (aged ''f'' Standard 65)
   \<and> potatoes (degradePotatoQuality (200 * Day) [''f'']
        (degradePotatoQuality (200 * Day) [''f''] old_premium_store)) ''f''
       = Some (aged ''f'' Economy 65)
   \<and> degradePotatoQuality (200 * Day) [''f'']
        (degradePotatoQuality (200 * Day) [''f''] old_premium_store)
       \<noteq> degradePotatoQuality (200 * Day) [''f''] old_premium_store
   \<and> potatoes twin_store =
       [''a'' \<mapsto> aged ''b'' Premium 40, ''b'' \<mapsto> (aged ''b'' Premium 40)\<lparr>Price := 5\<rparr>]
   \<and> iteration_order [''a'', ''b''] (potatoes twin_store)
   \<and> potatoes (degradePotatoQuality (200 * Day) [''a'', ''b''] twin_store)
       = [''a'' \<mapsto> aged ''b'' Premium 40, ''b'' \<mapsto> (aged ''b'' Standard 40)\<lparr>Price := 5\<rparr>]
   \<and> potatoes (degradePotatoQuality (200 * Day) [''a'', ''b'']
        (degradePotatoQuality (200 * Day) [''a'', ''b''] twin_store))
       = [''a'' \<mapsto> aged ''b'' Premium 40, ''b'' \<mapsto> aged ''b'' Standard 40]
   \<and> degradePotatoQuality (200 * Day) [''a'', ''b'']
        (degradePotatoQuality (200 * Day) [''a'', ''b''] twin_store)
       \<noteq> degradePotatoQuality (200 * Day) [''a'', ''b''] twin_store"
proof -
  have wk: "well_keyed old_premium_store"
    by (auto simp: well_keyed_def old_premium_store_def aged_def split: if_splits)
  have io: "iteration_order [''f''] (potatoes old_premium_store)"
    by (auto simp: iteration_order_def old_premium_store_def)
  have one: "potatoes (degradePotatoQuality (200 * Day) [''f''] old_premium_store) ''f''
       = Some (aged ''f'' Standard 65)"
    using qualities_distinct
    by (simp add: degradePotatoQuality_def GetAllPotatoes_def old_premium_store_def Let_def
        daysSinceHarvest_aged aged_fields UpdatePotato_def)
  have two: "potatoes (degradePotatoQuality (200 * Day) [''f'']
        (degradePotatoQuality (200 * Day) [''f''] old_premium_store)) ''f''
       = Some (aged ''f'' Economy 65)"
    using qualities_distinct
    by (simp add: degradePotatoQuality_def GetAllPotatoes_def old_premium_store_def Let_def
        daysSinceHarvest_aged aged_fields UpdatePotato_def)
  have "aged ''f'' Standard 65 \<noteq> aged ''f'' Economy 65"
    using qualities_distinct by (simp add: aged_def)
  with one two have ne: "degradePotatoQuality (200 * Day) [''f'']
        (degradePotatoQuality (200 * Day) [''f''] old_premium_store)
       \<noteq> degradePotatoQuality (200 * Day) [''f''] old_premium_store"
    by (metis option.inject)
  note t = twin_store_potatoes
  have d: "daysSinceHarvest (200 * Day) ((aged i q 40)\<lparr>Price := 5\<rparr>) = 40" for i q
    using daysSinceHarvest_aged [of 40 i q] by (simp add: daysSinceHarvest_def aged_def)
  have f: "Quality ((aged i q n)\<lparr>Price := 5\<rparr>) = q" "ID ((aged i q n)\<lparr>Price := 5\<rparr>) = i"
    "(aged i q n)\<lparr>Price := 5, Quality := q'\<rparr> = (aged i q' n)\<lparr>Price := 5\<rparr>" for i q n q'
    by (simp_all add: aged_def)
  have io': "iteration_order [''a'', ''b''] (potatoes twin_store)"
    by (auto simp: iteration_order_def t)
  have p1: "potatoes (degradePotatoQuality (200 * Day) [''a'', ''b''] twin_store)
       = [''a'' \<mapsto> aged ''b'' Premium 40, ''b'' \<mapsto> (aged ''b'' Standard 40)\<lparr>Price := 5\<rparr>]"
    using qualities_distinct
    by (simp add: degradePotatoQuality_def GetAllPotatoes_def t Let_def UpdatePotato_def
        daysSinceHarvest_aged aged_fields d f)
  have p2: "potatoes (degradePotatoQuality (200 * Day) [''a'', ''b'']
        (degradePotatoQuality (200 * Day) [''a'', ''b''] twin_store))
       = [''a'' \<mapsto> aged ''b'' Premium 40, ''b'' \<mapsto> aged ''b'' Standard 40]"
    using qualities_distinct
    by (simp add: degradePotatoQuality_def [of _ _ "degradePotatoQuality _ _ _"]
        GetAllPotatoes_def p1 Let_def UpdatePotato_def daysSinceHarvest_aged aged_fields d f)
  have "(aged ''b'' Standard 40)\<lparr>Price := 5\<rparr> \<noteq> aged ''b'' Standard 40"
    by (simp add: aged_def)
  then have "[''a'' \<mapsto> aged ''b'' Premium 40, ''b'' \<mapsto> aged ''b'' Standard 40] ''b''
      \<noteq> [''a'' \<mapsto> aged ''b'' Premium 40, ''b'' \<mapsto> (aged ''b'' Standard 40)\<lparr>Price := 5\<rparr>] ''b''"
    by simp
  then have ne': "degradePotatoQuality (200 * Day) [''a'', ''b'']
        (degradePotatoQuality (200 * Day) [''a'', ''b''] twin_store)
       \<noteq> degradePotatoQuality (200 * Day) [''a'', ''b''] twin_store"
    using p1 p2 by metis
  show ?thesis
    using wk io one two ne io' p1 p2 ne' by (simp add: t)
qed

text \<open>
  C2, amended: in a store where every record is kept under its own identifier, the first
  pass takes each record one step (Premium and older than 30 days to Standard, otherwise
  Standard and older than 60 days to Economy, otherwise no change); a second pass over
  the same data changes exactly the records that were Premium and older than 60 days
  before the first pass, which it takes from Standard to Economy, and leaves every other
  record as the first pass left it; a third pass changes nothing; and where the store
  has no Premium record older than 60 days, the second pass already changes nothing.
\<close>

theorem degrader_settles:
  assumes "well_keyed s" and "iteration_order ks1 (potatoes s)"
    and "iteration_order ks2 (potatoes (degradePotatoQuality now ks1 s))"
    and "iteration_order ks3 (potatoes (degradePotatoQuality now ks2 (degradePotatoQuality now ks1 s)))"
  shows "(\<forall>k potato. potatoes s k = Some potato \<longrightarrow>
            potatoes (degradePotatoQuality now ks1 s) k = Some
              (if 30 < daysSinceHarvest now potato \<and> Quality potato = Premium
                 then potato\<lparr>Quality := Standard\<rparr>
               else if 60 < daysSinceHarvest now potato \<and> Quality potato = Standard
                 then potato\<lparr>Quality := Economy\<rparr>
               else potato)
            \<and> potatoes (degradePotatoQuality now ks2 (degradePotatoQuality now ks1 s)) k =
              (if 60 < daysSinceHarvest now potato \<and> Quality potato = Premium
                 then Some (potato\<lparr>Quality := Economy\<rparr>)
               else potatoes (degradePotatoQuality now ks1 s) k))
         \<and> degradePotatoQuality now ks3 (degradePotatoQuality now ks2 (degradePotatoQuality now ks1 s))
             = degradePotatoQuality now ks2 (degradePotatoQuality now ks1 s)
         \<and> ((\<forall>k potato. potatoes s k = Some potato
               \<longrightarrow> \<not> (60 < daysSinceHarvest now potato \<and> Quality potato = Premium))
             \<longrightarrow> degradePotatoQuality now ks2 (degradePotatoQuality now ks1 s)
                   = degradePotatoQuality now ks1 s)"
proof -
  let ?s1 = "degradePotatoQuality now ks1 s"
  let ?s2 = "degradePotatoQuality now ks2 ?s1"
  let ?s3 = "degradePotatoQuality now ks3 ?s2"
  let ?f = "\<lambda>p. degraded (daysSinceHarvest now p) p"
  have wk1: "well_keyed ?s1"
    by (rule well_keyed_degradePotatoQuality [OF assms(1,2)])
  have wk2: "well_keyed ?s2"
    by (rule well_keyed_degradePotatoQuality [OF wk1 assms(3)])
  have p1: "potatoes ?s1 k = map_option ?f (potatoes s k)" for k
    by (rule degradePotatoQuality_potatoes [OF assms(1,2)])
  have p2: "potatoes ?s2 k = map_option ?f (potatoes ?s1 k)" for k
    by (rule degradePotatoQuality_potatoes [OF wk1 assms(3)])
  have p3: "potatoes ?s3 k = map_option ?f (potatoes ?s2 k)" for k
    by (rule degradePotatoQuality_potatoes [OF wk2 assms(4)])
  have first: "potatoes ?s1 k = Some
        (if 30 < daysSinceHarvest now potato \<and> Quality potato = Premium
           then potato\<lparr>Quality := Standard\<rparr>
         else if 60 < daysSinceHarvest now potato \<and> Quality potato = Standard
           then potato\<lparr>Quality := Economy\<rparr>
         else potato)"
    if "potatoes s k = Some potato" for k potato
    using that by (simp add: p1 degraded_def)
  have old: "potatoes ?s2 k = Some (potato\<lparr>Quality := Economy\<rparr>)"
    if "potatoes s k = Some potato"
      and "60 < daysSinceHarvest now potato \<and> Quality potato = Premium" for k potato
    using that qualities_distinct
    by (simp add: p2 p1 daysSinceHarvest_degraded) (simp add: degraded_def)
  have second: "potatoes ?s2 k = potatoes ?s1 k"
    if "potatoes s k = Some potato"
      and "\<not> (60 < daysSinceHarvest now potato \<and> Quality potato = Premium)" for k potato
    using that by (simp add: p2 p1 daysSinceHarvest_degraded degraded_once)
  have third: "potatoes ?s3 k = potatoes ?s2 k" for k
    by (cases "potatoes s k")
       (simp_all add: p3 p2 p1 daysSinceHarvest_degraded degraded_twice)
  have "?s3 = ?s2"
    by (rule storage_eqI) (use third in \<open>auto simp: degradePotatoQuality_frame\<close>)
  moreover have "?s2 = ?s1"
    if "\<forall>k potato. potatoes s k = Some potato
          \<longrightarrow> \<not> (60 < daysSinceHarvest now potato \<and> Quality potato = Premium)"
  proof (rule storage_eqI)
    show "potatoes ?s2 = potatoes ?s1"
    proof
      fix k
      show "potatoes ?s2 k = potatoes ?s1 k"
      proof (cases "potatoes s k")
        case None
        then show ?thesis by (simp add: p2 p1)
      next
        case (Some potato)
        with that second show ?thesis by blast
      qed
    qed
  qed (simp_all add: degradePotatoQuality_frame)
  moreover have "potatoes ?s2 k =
        (if 60 < daysSinceHarvest now potato \<and> Quality potato = Premium
           then Some (potato\<lparr>Quality := Economy\<rparr>)
         else potatoes ?s1 k)"
    if "potatoes s k = Some potato" for k potato
    using old [OF that] second [OF that] by (simp only: if_split) blast
  ultimately show ?thesis using first by blast
qed

theorem degrader_settles_witness:
  "potatoes (degradePotatoQuality (200 * Day) [''f''] old_premium_store) ''f''
     = Some (aged ''f'' Standard 65)
   \<and> potatoes (degradePotatoQuality (200 * Day) [''f'']
        (degradePotatoQuality (200 * Day) [''f''] old_premium_store)) ''f''
     = Some (aged ''f'' Economy 65)
   \<and> degradePotatoQuality (200 * Day) [''f'']
     (degradePotatoQuality (200 * Day) [''f'']
        (degradePotatoQuality (200 * Day) [''f''] old_premium_store))
     = degradePotatoQuality (200 * Day) [''f'']
         (degradePotatoQuality (200 * Day) [''f''] old_premium_store)
   \<and> potatoes (degradePotatoQuality (200 * Day) [''e'', ''a'', ''d'', ''b'', ''c''] aging_store) ''a''
     = Some (aged ''a'' Standard 40)
   \<and> degradePotatoQuality (200 * Day) [''a'', ''b'', ''c'', ''d'', ''e'']
       (degradePotatoQuality (200 * Day) [''e'', ''a'', ''d'', ''b'', ''c''] aging_store)
     = degradePotatoQuality (200 * Day) [''e'', ''a'', ''d'', ''b'', ''c''] aging_store"
proof -
  have wk: "well_keyed old_premium_store"
    by (auto simp: well_keyed_def old_premium_store_def aged_def split: if_splits)
  have io: "iteration_order [''f''] (potatoes old_premium_store)"
    by (auto simp: iteration_order_def old_premium_store_def)
  have io': "iteration_order [''a'', ''b'', ''c'', ''d'', ''e''] (potatoes aging_store)"
    by (auto simp: iteration_order_def aging_store_def)
  have f: "potatoes old_premium_store ''f'' = Some (aged ''f'' Premium 65)"
    by (simp add: old_premium_store_def)
  have a: "potatoes aging_store ''a'' = Some (aged ''a'' Premium 40)"
    by (simp add: aging_store_def)
  have young: "\<forall>k potato. potatoes aging_store k = Some potato
      \<longrightarrow> \<not> (60 < daysSinceHarvest (200 * Day) potato \<and> Quality potato = Premium)"
    using qualities_distinct
    by (auto simp: aging_store_def daysSinceHarvest_aged aged_fields split: if_splits)
  note old = degrader_settles [of old_premium_store "[''f'']" "[''f'']" "200 * Day" "[''f'']"]
  note yng = degrader_settles [of aging_store "[''e'', ''a'', ''d'', ''b'', ''c'']"
        "[''a'', ''b'', ''c'', ''d'', ''e'']" "200 * Day" "[''a'', ''b'', ''c'', ''d'', ''e'']"]
  have h_old: "well_keyed old_premium_store"
    "iteration_order [''f''] (potatoes old_premium_store)"
    "iteration_order [''f''] (potatoes (degradePotatoQuality (200 * Day) [''f''] old_premium_store))"
    "iteration_order [''f''] (potatoes (degradePotatoQuality (200 * Day) [''f'']
        (degradePotatoQuality (200 * Day) [''f''] old_premium_store)))"
    using wk io by (simp_all add: iteration_order_degradePotatoQuality)
  have h_yng: "well_keyed aging_store"
    "iteration_order [''e'', ''a'', ''d'', ''b'', ''c''] (potatoes aging_store)"
    "iteration_order [''a'', ''b'', ''c'', ''d'', ''e'']
       (potatoes (degradePotatoQuality (200 * Day) [''e'', ''a'', ''d'', ''b'', ''c''] aging_store))"
    "iteration_order [''a'', ''b'', ''c'', ''d'', ''e'']
       (potatoes (degradePotatoQuality (200 * Day) [''a'', ''b'', ''c'', ''d'', ''e'']
          (degradePotatoQuality (200 * Day) [''e'', ''a'', ''d'', ''b'', ''c''] aging_store)))"
    using well_keyed_aging_store iteration_order_aging_store io'
    by (simp_all add: iteration_order_degradePotatoQuality)
  from old [OF h_old] have o1: "\<forall>k potato. potatoes old_premium_store k = Some potato \<longrightarrow>
            potatoes (degradePotatoQuality (200 * Day) [''f''] old_premium_store) k = Some
              (if 30 < daysSinceHarvest (200 * Day) potato \<and> Quality potato = Premium
                 then potato\<lparr>Quality := Standard\<rparr>
               else if 60 < daysSinceHarvest (200 * Day) potato \<and> Quality potato = Standard
                 then potato\<lparr>Quality := Economy\<rparr>
               else potato)
            \<and> potatoes (degradePotatoQuality (200 * Day) [''f'']
                 (degradePotatoQuality (200 * Day) [''f''] old_premium_store)) k =
              (if 60 < daysSinceHarvest (200 * Day) potato \<and> Quality potato = Premium
                 then Some (potato\<lparr>Quality := Economy\<rparr>)
               else potatoes (degradePotatoQuality (200 * Day) [''f''] old_premium_store) k)"
    and o3: "degradePotatoQuality (200 * Day) [''f'']
     (degradePotatoQuality (200 * Day) [''f'']
        (degradePotatoQuality (200 * Day) [''f''] old_premium_store))
     = degradePotatoQuality (200 * Day) [''f'']
         (degradePotatoQuality (200 * Day) [''f''] old_premium_store)"
    by blast+
  from yng [OF h_yng] young have y1: "\<forall>k potato. potatoes aging_store k = Some potato \<longrightarrow>
            potatoes (degradePotatoQuality (200 * Day) [''e'', ''a'', ''d'', ''b'', ''c''] aging_store) k
              = Some
              (if 30 < daysSinceHarvest (200 * Day) potato \<and> Quality potato = Premium
                 then potato\<lparr>Quality := Standard\<rparr>
               else if 60 < daysSinceHarvest (200 * Day) potato \<and> Quality potato = Standard
                 then potato\<lparr>Quality := Economy\<rparr>
               else potato)"
    and y2: "degradePotatoQuality (200 * Day) [''a'', ''b'', ''c'', ''d'', ''e'']
       (degradePotatoQuality (200 * Day) [''e'', ''a'', ''d'', ''b'', ''c''] aging_store)
     = degradePotatoQuality (200 * Day) [''e'', ''a'', ''d'', ''b'', ''c''] aging_store"
    by blast+
  from o1 f have "potatoes (degradePotatoQuality (200 * Day) [''f''] old_premium_store) ''f''
     = Some (aged ''f'' Standard 65)
   \<and> potatoes (degradePotatoQuality (200 * Day) [''f'']
        (degradePotatoQuality (200 * Day) [''f''] old_premium_store)) ''f''
     = Some (aged ''f'' Economy 65)"
    using qualities_distinct
    by (simp add: daysSinceHarvest_aged aged_fields)
  moreover from y1 a
  have "potatoes (degradePotatoQuality (200 * Day) [''e'', ''a'', ''d'', ''b'', ''c''] aging_store) ''a''
     = Some (aged ''a'' Standard 40)"
    using qualities_distinct
    by (simp add: daysSinceHarvest_aged aged_fields)
  ultimately show ?thesis using o3 y2 by simp
qed

section \<open>The inventory summary\<close>















subsection \<open>Evaluating the rounding\<close>


lemma exponent_up_numeral [simp]:
  "exponent_up (numeral k) x e =
     (if 2 \<le> x then exponent_up (pred_numeral k) (x / 2) (e + 1) else e)"
  by (simp add: numeral_eq_Suc)

lemma exponent_down_numeral [simp]:
  "exponent_down (numeral k) x e =
     (if x < 1 then exponent_down (pred_numeral k) (2 * x) (e - 1) else e)"
  by (simp add: numeral_eq_Suc)






subsection \<open>The Russet scenario\<close>




subsection \<open>The summary\<close>




end
